theory Spec2Isabelle
  imports Complex_Main
begin

section \<open>Python values used by app.py\<close>

text \<open>
  The tools of app.py talk to the outside world (the file system, the Icarus Verilog
  binaries, Graphviz, the remote model) and report what happened as a JSON object.  The
  outside world is a parameter of every definition below: an oracle says what an external
  call does, the embedding says what app.py does with it.  Console output (\<open>print\<close>) is
  not modelled.  Python strings are modelled as \<open>string\<close>.
\<close>

subsection \<open>Exceptions\<close>

text \<open>
  The exception classes that app.py tells apart.  \<open>OtherException\<close> stands for every
  instance of \<open>Exception\<close> that is none of the three classes named in the handlers of
  \<open>run_verilog_simulation\<close> (a \<open>PermissionError\<close>, a \<open>ValueError\<close>, a
  \<open>UnicodeDecodeError\<close>, ...).  \<open>str\<close> is Python's \<open>str(e)\<close>, \<open>stderr\<close> the
  attribute \<open>e.stderr\<close> of a \<open>CalledProcessError\<close>.
\<close>

datatype exn =
    FileNotFoundError (str: string)
  | CalledProcessError (str: string) (stderr: string)
  | TimeoutExpired (str: string)
  | OtherException (str: string)

subsection \<open>JSON objects\<close>

text \<open>
  Every dictionary that app.py serialises maps string keys to string values; it is kept
  as the list of its items in insertion order, which is the order \<open>json.dumps\<close> writes.
\<close>

type_synonym json_obj = "(string \<times> string) list"

subsection \<open>The process environment\<close>

datatype node = File string | Directory

text \<open>
  \<open>fs\<close> is the file system seen from the working directory of the process, keyed by the
  path string as the program writes it.  \<open>spawned\<close> records every call of
  \<open>subprocess.run\<close>, in order, with its command line and its timeout in seconds.
\<close>

record world =
  fs :: "string \<rightharpoonup> node"
  spawned :: "(string list \<times> real) list"

text \<open>
  What a child wrote to a pipe, as \<open>text=True\<close> sees it: bytes that decode to a text
  (the text that ends up in \<open>stdout\<close> or \<open>stderr\<close>, newlines already translated),
  or bytes that are not valid in the encoding of the locale.
\<close>

datatype captured = Decodes string | Garbled

text \<open>
  What a child process does once it is asked for: the executable is missing, starting it
  raises something else, it exits after some seconds with a return code, its standard
  output and its standard error, or it never exits by itself.
\<close>

datatype proc_behaviour =
    NotFound string
  | SpawnFails string
  | Exits real int captured captured
  | Hangs

text \<open>
  The launcher oracle gives the behaviour of a command line in a given world (which holds
  the files written so far and the commands run so far, the build artifact of an earlier
  compile step among them).
\<close>

type_synonym launcher = "world \<Rightarrow> string list \<Rightarrow> proc_behaviour"

record completed_process =
  returncode :: int
  stdout :: string
  stderr_text :: string

text \<open>
  \<open>subprocess.run(cmd, capture_output=True, text=True, check=True, timeout=t)\<close>:
  a missing executable raises \<open>FileNotFoundError\<close>; a child still running after \<open>t\<close>
  seconds is killed and \<open>TimeoutExpired\<close> is raised; the output of a child that has
  exited is decoded, standard output first, and bytes that do not decode raise
  \<open>UnicodeDecodeError\<close>; then, with \<open>check=True\<close>, a non-zero return code raises
  \<open>CalledProcessError\<close> carrying the captured standard error.
\<close>

definition subprocess_run ::
  "launcher \<Rightarrow> string list \<Rightarrow> real \<Rightarrow> world \<Rightarrow> (exn + completed_process) \<times> world" where
  "subprocess_run launch cmd timeout w =
     (let w' = w\<lparr>spawned := spawned w @ [(cmd, timeout)]\<rparr> in
      case launch w cmd of
        NotFound m \<Rightarrow> (Inl (FileNotFoundError m), w')
      | SpawnFails m \<Rightarrow> (Inl (OtherException m), w')
      | Hangs \<Rightarrow> (Inl (TimeoutExpired ''timed out''), w')
      | Exits t rc out err \<Rightarrow>
          if timeout < t then (Inl (TimeoutExpired ''timed out''), w')
          else
            (case out of
               Garbled \<Rightarrow> (Inl (OtherException ''codec cannot decode byte''), w')
             | Decodes out_text \<Rightarrow>
                 (case err of
                    Garbled \<Rightarrow> (Inl (OtherException ''codec cannot decode byte''), w')
                  | Decodes err_text \<Rightarrow>
                      if rc \<noteq> 0
                      then (Inl (CalledProcessError ''non-zero exit status'' err_text), w')
                      else (Inr \<lparr>returncode = rc, stdout = out_text,
                                 stderr_text = err_text\<rparr>, w'))))"

subsection \<open>Splitting on whitespace\<close>

text \<open>
  \<open>str.split()\<close> without arguments: the maximal runs of non-whitespace characters.  The
  whitespace characters below 256 are the ones for which \<open>str.isspace\<close> holds.
\<close>

definition isspace :: "char \<Rightarrow> bool" where
  "isspace c = (of_char c \<in> {9, 10, 11, 12, 13, 28, 29, 30, 31, 32, 133, 160 :: nat})"

fun split_from :: "string \<Rightarrow> string \<Rightarrow> string list" where
  "split_from cur [] = (if cur = [] then [] else [cur])"
| "split_from cur (c # cs) =
     (if isspace c then (if cur = [] then split_from [] cs else cur # split_from [] cs)
      else split_from (cur @ [c]) cs)"

definition str_split :: "string \<Rightarrow> string list" where
  "str_split s = split_from [] s"

section \<open>The tools\<close>

subsection \<open>run_verilog_simulation\<close>

definition compile_command :: "string \<Rightarrow> string list \<Rightarrow> string list" where
  "compile_command testbench_file design_files_list =
     [''iverilog'', ''-o'', ''simulation_output'', testbench_file] @ design_files_list"

definition run_command :: "string list" where
  "run_command = [''vvp'', ''simulation_output'']"

definition toolchain_missing :: json_obj where
  "toolchain_missing =
     [(''error'',
       ''Icarus Verilog not found. Please ensure it is installed and in your system's PATH.'')]"

definition simulation_failed :: "string \<Rightarrow> json_obj" where
  "simulation_failed details = [(''error'', ''Simulation failed''), (''details'', details)]"

definition simulation_timed_out :: json_obj where
  "simulation_timed_out =
     [(''error'', ''Simulation timed out. The testbench might have an infinite loop.'')]"

text \<open>
  The three \<open>except\<close> clauses of \<open>run_verilog_simulation\<close>, in the order of the source.
  An exception of any other class is not handled there and leaves the function (\<open>Inl\<close>).
\<close>

fun simulation_handlers :: "exn \<Rightarrow> exn + json_obj" where
  "simulation_handlers (FileNotFoundError m) = Inr toolchain_missing"
| "simulation_handlers (CalledProcessError m err) = Inr (simulation_failed err)"
| "simulation_handlers (TimeoutExpired m) = Inr simulation_timed_out"
| "simulation_handlers e = Inl e"

definition run_verilog_simulation ::
  "launcher \<Rightarrow> string \<Rightarrow> string \<Rightarrow> world \<Rightarrow> (exn + json_obj) \<times> world" where
  "run_verilog_simulation launch testbench_file design_files w =
     (let design_files_list = str_split design_files in
      case subprocess_run launch (compile_command testbench_file design_files_list) 15 w of
        (Inl e, w1) \<Rightarrow> (simulation_handlers e, w1)
      | (Inr compile_process, w1) \<Rightarrow>
          (case subprocess_run launch run_command 15 w1 of
             (Inl e, w2) \<Rightarrow> (simulation_handlers e, w2)
           | (Inr run_process, w2) \<Rightarrow> (Inr [(''simulation_log'', stdout run_process)], w2)))"

subsection \<open>save_code_to_file\<close>

text \<open>
  Why a file operation raises is outside the program: the oracle \<open>open_fault\<close> gives the
  exception that \<open>open(path, 'w')\<close> raises for a path (a missing parent directory, a
  permission, an empty name, ...), \<open>write_fault\<close> the exception raised while the text is
  written and the file closed, together with what has reached the file by then, and
  \<open>makedirs_fault\<close> the exception of \<open>os.makedirs\<close>.  The last two fields stand for the
  Graphviz package: \<open>saved_source\<close> is the text that \<open>Source.save\<close> stores for a
  description, \<open>engine\<close> is the layout program, which returns the image for a format and a
  description or raises.  Each oracle is a function of the arguments of the call only: the
  same call meets the same fault, and the engine renders a description the same way every
  time.  The texts of the exceptions that the definitions below raise themselves
  (\<open>Is a directory\<close>, \<open>File exists\<close>, ...) are shortened.  \<open>platform\<close> is the
  operating system, which fixes \<open>os.linesep\<close>.  A file holds the characters written to
  it: encoding a text and decoding it again gives the same text, and a text that cannot be
  encoded is a \<open>write_fault\<close>.
\<close>

datatype platform = Posix | Windows

definition os_linesep :: "platform \<Rightarrow> string" where
  "os_linesep p = (case p of Posix \<Rightarrow> [CHR 0x0A] | Windows \<Rightarrow> [CHR 0x0D, CHR 0x0A])"

record io =
  platform :: platform
  open_fault :: "string \<Rightarrow> exn option"
  write_fault :: "string \<Rightarrow> string \<Rightarrow> (exn \<times> string) option"
  makedirs_fault :: "string \<Rightarrow> exn option"
  saved_source :: "string \<Rightarrow> string"
  engine :: "string \<Rightarrow> string \<Rightarrow> exn + string"

text \<open>\<open>open(filename, 'w')\<close>: creates the file or truncates it; a directory cannot be opened.\<close>

definition open_w :: "io \<Rightarrow> string \<Rightarrow> world \<Rightarrow> (exn + unit) \<times> world" where
  "open_w env filename w =
     (case open_fault env filename of
        Some e \<Rightarrow> (Inl e, w)
      | None \<Rightarrow>
          (case fs w filename of
             Some Directory \<Rightarrow> (Inl (OtherException ''Is a directory''), w)
           | _ \<Rightarrow> (Inr (), w\<lparr>fs := (fs w)(filename \<mapsto> File [])\<rparr>)))"

text \<open>
  Writing in text mode (the file is opened with \<open>'w'\<close> and no \<open>newline\<close> argument):
  every line feed of the text is written as \<open>os.linesep\<close>.
\<close>

fun translate_newlines :: "string \<Rightarrow> string \<Rightarrow> string" where
  "translate_newlines linesep [] = []"
| "translate_newlines linesep (c # cs) =
     (if c = CHR 0x0A then linesep @ translate_newlines linesep cs
      else c # translate_newlines linesep cs)"

text \<open>\<open>f.write(code)\<close> followed by the close at the end of the \<open>with\<close> block.\<close>

definition write_close :: "io \<Rightarrow> string \<Rightarrow> string \<Rightarrow> world \<Rightarrow> (exn + unit) \<times> world" where
  "write_close env filename code w =
     (case write_fault env filename code of
        Some (e, reached) \<Rightarrow> (Inl e, w\<lparr>fs := (fs w)(filename \<mapsto> File reached)\<rparr>)
      | None \<Rightarrow>
          (Inr (),
           w\<lparr>fs := (fs w)(filename \<mapsto>
                  File (translate_newlines (os_linesep (platform env)) code))\<rparr>))"

definition file_saved :: "string \<Rightarrow> json_obj" where
  "file_saved filename =
     [(''status'', ''success''),
      (''message'', ''File '' @ [CHR 0x27] @ filename @ [CHR 0x27] @ '' saved successfully.'')]"

definition save_code_to_file ::
  "io \<Rightarrow> string \<Rightarrow> string \<Rightarrow> world \<Rightarrow> (exn + json_obj) \<times> world" where
  "save_code_to_file env filename code w =
     (case open_w env filename w of
        (Inl e, w1) \<Rightarrow> (Inr [(''error'', str e)], w1)
      | (Inr f, w1) \<Rightarrow>
          (case write_close env filename code w1 of
             (Inl e, w2) \<Rightarrow> (Inr [(''error'', str e)], w2)
           | (Inr u, w2) \<Rightarrow> (Inr (file_saved filename), w2)))"

text \<open>What a file holds, as it is stored: \<open>open(path, 'rb').read()\<close>.\<close>

definition read_file :: "world \<Rightarrow> string \<Rightarrow> exn + string" where
  "read_file w path =
     (case fs w path of
        None \<Rightarrow> Inl (FileNotFoundError ''No such file or directory'')
      | Some Directory \<Rightarrow> Inl (OtherException ''Is a directory'')
      | Some (File c) \<Rightarrow> Inr c)"



subsection \<open>generate_circuit_diagram\<close>

definition os_path_exists :: "world \<Rightarrow> string \<Rightarrow> bool" where
  "os_path_exists w path = (fs w path \<noteq> None)"

text \<open>\<open>os.makedirs(path)\<close> without \<open>exist_ok\<close>: an existing path raises \<open>FileExistsError\<close>.\<close>

definition os_makedirs :: "io \<Rightarrow> string \<Rightarrow> world \<Rightarrow> (exn + unit) \<times> world" where
  "os_makedirs env path w =
     (case makedirs_fault env path of
        Some e \<Rightarrow> (Inl e, w)
      | None \<Rightarrow>
          if fs w path \<noteq> None then (Inl (OtherException ''File exists''), w)
          else (Inr (), w\<lparr>fs := (fs w)(path \<mapsto> Directory)\<rparr>))"

text \<open>
  \<open>Source(source, filename, format, directory).render(view=False)\<close>: the package makes
  sure the directory is there, saves the source as \<open>directory/filename\<close>, runs the
  engine on it and leaves the image as \<open>directory/filename.format\<close>, whose path it
  returns.  An engine that is not installed or that rejects the source raises, after the
  source has been saved.
\<close>

definition source_render ::
  "io \<Rightarrow> string \<Rightarrow> string \<Rightarrow> string \<Rightarrow> string \<Rightarrow> world \<Rightarrow> (exn + string) \<times> world" where
  "source_render env source filename format directory w =
     (case fs w directory of
        Some (File c) \<Rightarrow> (Inl (OtherException ''Not a directory''), w)
      | _ \<Rightarrow>
          (let filepath = directory @ ''/'' @ filename;
               w1 = w\<lparr>fs := (fs w)(directory \<mapsto> Directory,
                                    filepath \<mapsto> File (saved_source env source))\<rparr>
           in case engine env format source of
                Inl e \<Rightarrow> (Inl e, w1)
              | Inr rendered \<Rightarrow>
                  (Inr (filepath @ ''.'' @ format),
                   w1\<lparr>fs := (fs w1)(filepath @ ''.'' @ format \<mapsto> File rendered)\<rparr>)))"

definition diagram_rendered :: json_obj where
  "diagram_rendered = [(''status'', ''success''), (''image_path'', ''/static/circuit.png'')]"

definition diagram_failed :: "exn \<Rightarrow> json_obj" where
  "diagram_failed e =
     [(''error'',
       ''Diagram generation failed. Ensure Graphviz software is installed. Error: '' @ str e)]"

definition generate_circuit_diagram ::
  "io \<Rightarrow> string \<Rightarrow> world \<Rightarrow> (exn + json_obj) \<times> world" where
  "generate_circuit_diagram env dot_description w =
     (case (if \<not> os_path_exists w ''static'' then os_makedirs env ''static'' w
            else (Inr (), w)) of
        (Inl e, w1) \<Rightarrow> (Inr (diagram_failed e), w1)
      | (Inr u, w1) \<Rightarrow>
          (case source_render env dot_description ''circuit'' ''png'' ''static'' w1 of
             (Inl e, w2) \<Rightarrow> (Inr (diagram_failed e), w2)
           | (Inr path, w2) \<Rightarrow> (Inr diagram_rendered, w2)))"

section \<open>The chat endpoint\<close>

text \<open>
  \<open>request.form.get("message")\<close> and \<open>request.files.get("image")\<close> are \<open>None\<close> when
  the field is absent.  An uploaded file is true in a condition when its file name is not
  empty, a string when it is not empty.
\<close>

record file_storage =
  upload_filename :: string
  upload_stream :: string

record request =
  form_message :: "string option"
  files_image :: "file_storage option"

definition truthy_str :: "string option \<Rightarrow> bool" where
  "truthy_str m = (case m of None \<Rightarrow> False | Some s \<Rightarrow> s \<noteq> [])"

definition truthy_file :: "file_storage option \<Rightarrow> bool" where
  "truthy_file f = (case f of None \<Rightarrow> False | Some u \<Rightarrow> upload_filename u \<noteq> [])"

datatype content_part = Text string | Picture string

text \<open>
  The reply of the model gateway; reading \<open>response.text\<close> can raise (a reply without a
  text part).
\<close>

datatype response = Response (response_text: "exn + string")

text \<open>
  The chat object of the module: \<open>history\<close> is the conversation it keeps (of a type
  the program never looks into), \<open>queries\<close> records every call of \<open>send_message\<close>.
  The gateway oracle is all of \<open>chat.send_message\<close>: given the history and the new
  content it returns a reply or raises, and gives the history it leaves behind.
\<close>

record 'h chat_session =
  history :: 'h
  queries :: "content_part list list"

type_synonym 'h gateway = "'h \<Rightarrow> content_part list \<Rightarrow> (exn + response) \<times> 'h"

definition send_message ::
  "'h gateway \<Rightarrow> content_part list \<Rightarrow> 'h chat_session
     \<Rightarrow> (exn + response) \<times> 'h chat_session" where
  "send_message gw content chat =
     (case gw (history chat) content of
        (r, h) \<Rightarrow> (r, \<lparr>history = h, queries = queries chat @ [content]\<rparr>))"

type_synonym http_response = "json_obj \<times> nat"

definition no_message :: http_response where
  "no_message = ([(''error'', ''No message provided'')], 400)"

definition invalid_image :: http_response where
  "invalid_image = ([(''error'', ''Invalid image file'')], 400)"

definition internal_error :: http_response where
  "internal_error = ([(''error'', ''An internal error occurred.'')], 500)"

definition reply :: "string \<Rightarrow> http_response" where
  "reply t = ([(''reply'', t)], 200)"

text \<open>
  The first half of \<open>handle_chat\<close>, up to the \<open>try\<close> around the gateway call: it
  leaves the function with a 400 response (\<open>Inl\<close>) or has built the content to send.
  \<open>image_open\<close> is \<open>Image.open\<close> on the uploaded stream, which returns the decoded
  picture or raises.
\<close>

definition build_content ::
  "(string \<Rightarrow> exn + string) \<Rightarrow> request \<Rightarrow> http_response + content_part list" where
  "build_content image_open req =
     (let user_message = form_message req; image_file = files_image req in
      if \<not> truthy_str user_message \<and> \<not> truthy_file image_file then Inl no_message
      else
        let content = (case user_message of
                         Some m \<Rightarrow> if truthy_str user_message then [Text m] else []
                       | None \<Rightarrow> [])
        in case image_file of
             Some u \<Rightarrow>
               if truthy_file image_file
               then (case image_open (upload_stream u) of
                       Inl e \<Rightarrow> Inl invalid_image
                     | Inr picture \<Rightarrow> Inr (content @ [Picture picture]))
               else Inr content
           | None \<Rightarrow> Inr content)"

definition handle_chat ::
  "(string \<Rightarrow> exn + string) \<Rightarrow> 'h gateway \<Rightarrow> request \<Rightarrow> 'h chat_session
     \<Rightarrow> http_response \<times> 'h chat_session" where
  "handle_chat image_open gw req chat =
     (case build_content image_open req of
        Inl early \<Rightarrow> (early, chat)
      | Inr content \<Rightarrow>
          (case send_message gw content chat of
             (Inl e, chat1) \<Rightarrow> (internal_error, chat1)
           | (Inr response, chat1) \<Rightarrow>
               (case response_text response of
                  Inl e \<Rightarrow> (internal_error, chat1)
                | Inr t \<Rightarrow> (reply t, chat1))))"

section \<open>Vocabulary of the properties\<close>

text \<open>
  The behaviour of the two steps of one call of \<open>run_verilog_simulation\<close>: the compile
  step is launched in the world of the call, the run step in the world in which the compile
  step has been recorded.
\<close>

definition compile_step :: "launcher \<Rightarrow> string \<Rightarrow> string \<Rightarrow> world \<Rightarrow> proc_behaviour" where
  "compile_step launch testbench_file design_files w =
     launch w (compile_command testbench_file (str_split design_files))"

definition run_step :: "launcher \<Rightarrow> string \<Rightarrow> string \<Rightarrow> world \<Rightarrow> proc_behaviour" where
  "run_step launch testbench_file design_files w =
     launch
       (w\<lparr>spawned :=
            spawned w @ [(compile_command testbench_file (str_split design_files), 15)]\<rparr>)
       run_command"

text \<open>A step exits with status zero within the limit, and its output decodes.\<close>

definition completes :: "real \<Rightarrow> proc_behaviour \<Rightarrow> bool" where
  "completes limit b =
     (case b of
        Exits t rc (Decodes out) (Decodes err) \<Rightarrow> t \<le> limit \<and> rc = 0
      | _ \<Rightarrow> False)"

text \<open>
  A step exits within the limit with a non-zero status, its output decodes and its
  standard error is the given text.
\<close>

definition fails_with :: "real \<Rightarrow> string \<Rightarrow> proc_behaviour \<Rightarrow> bool" where
  "fails_with limit details b =
     (case b of
        Exits t rc (Decodes out) (Decodes err) \<Rightarrow> t \<le> limit \<and> rc \<noteq> 0 \<and> err = details
      | _ \<Rightarrow> False)"

text \<open>A step is still running when the limit is reached.\<close>

definition exceeds :: "real \<Rightarrow> proc_behaviour \<Rightarrow> bool" where
  "exceeds limit b =
     (case b of Hangs \<Rightarrow> True | Exits t rc out err \<Rightarrow> limit < t | _ \<Rightarrow> False)"

text \<open>The executable of a step is not installed.\<close>

definition missing :: "proc_behaviour \<Rightarrow> bool" where
  "missing b = (case b of NotFound m \<Rightarrow> True | _ \<Rightarrow> False)"

text \<open>The calls of \<open>subprocess.run\<close> made between two worlds.\<close>

definition spawned_since :: "world \<Rightarrow> world \<Rightarrow> (string list \<times> real) list" where
  "spawned_since w w' = drop (length (spawned w)) (spawned w')"

text \<open>
  What tells one failure of a tool from another in its JSON object: the text under
  \<open>error\<close>.
\<close>

definition failure_kind :: "json_obj \<Rightarrow> string option" where
  "failure_kind r = map_of r ''error''"

text \<open>
  The world once \<open>generate_circuit_diagram\<close> has made sure of the output directory
  and the source of the diagram has been saved there.
\<close>

definition staged :: "io \<Rightarrow> string \<Rightarrow> world \<Rightarrow> world" where
  "staged env d w =
     w\<lparr>fs := (fs w)(''static'' \<mapsto> Directory,
                     ''static/circuit'' \<mapsto> File (saved_source env d))\<rparr>"

section \<open>Concrete environments\<close>

definition empty_world :: world where
  "empty_world = \<lparr>fs = Map.empty, spawned = []\<rparr>"

text \<open>A machine on which \<open>iverilog\<close> behaves as \<open>c\<close> and every other command as \<open>r\<close>.\<close>

definition toolchain :: "proc_behaviour \<Rightarrow> proc_behaviour \<Rightarrow> launcher" where
  "toolchain c r w cmd = (if take 1 cmd = [''iverilog''] then c else r)"

text \<open>
  On POSIX an argument that contains a NUL character cannot be passed to a child:
  \<open>subprocess.run\<close> raises \<open>ValueError\<close> before anything is started.
\<close>

definition posix_launcher :: "launcher \<Rightarrow> launcher" where
  "posix_launcher launch w cmd =
     (if CHR 0x00 \<in> set (concat cmd) then SpawnFails ''embedded null byte''
      else launch w cmd)"

text \<open>
  A POSIX file system on which the empty path cannot be opened and nothing else goes
  wrong, with a layout engine that accepts the descriptions starting with \<open>digraph\<close>;
  and the same on Windows.
\<close>

definition plain_io :: io where
  "plain_io =
     \<lparr>platform = Posix,
      open_fault = (\<lambda>path. if path = [] then Some (FileNotFoundError ''No such file or directory'')
                           else None),
      write_fault = (\<lambda>path code. None),
      makedirs_fault = (\<lambda>path. None),
      saved_source = (\<lambda>source. source),
      engine = (\<lambda>format source.
                  if take 7 source = ''digraph'' then Inr (format @ '':'' @ source)
                  else Inl (CalledProcessError ''dot returned non-zero exit status 1''
                                               ''syntax error''))\<rparr>"


definition empty_chat :: "content_part list list chat_session" where
  "empty_chat = \<lparr>history = [], queries = []\<rparr>"

text \<open>A gateway that answers every message, and one that is out of reach.\<close>

definition answering_gateway :: "content_part list list gateway" where
  "answering_gateway h content = (Inr (Response (Inr ''Design simulated.'')), h @ [content])"

definition unreachable_gateway :: "content_part list list gateway" where
  "unreachable_gateway h content = (Inl (OtherException ''503 service unavailable''), h)"

section \<open>Properties of subprocess.run\<close>

lemma subprocess_run_pair:
  "subprocess_run launch cmd limit w =
     (fst (subprocess_run launch cmd limit w), w\<lparr>spawned := spawned w @ [(cmd, limit)]\<rparr>)"
  by (simp add: subprocess_run_def Let_def split: proc_behaviour.split captured.split)

lemma subprocess_run_world:
  "snd (subprocess_run launch cmd limit w) = w\<lparr>spawned := spawned w @ [(cmd, limit)]\<rparr>"
  using subprocess_run_pair [of launch cmd limit w] by (metis snd_conv)

lemma subprocess_run_spawned:
  "spawned (snd (subprocess_run launch cmd limit w)) = spawned w @ [(cmd, limit)]"
  by (simp add: subprocess_run_world)

lemma run_fails_with:
  "fails_with limit details (launch w cmd) \<Longrightarrow>
   subprocess_run launch cmd limit w =
     (Inl (CalledProcessError ''non-zero exit status'' details),
      w\<lparr>spawned := spawned w @ [(cmd, limit)]\<rparr>)"
  by (auto simp add: subprocess_run_def fails_with_def Let_def
      split: proc_behaviour.splits captured.splits)

lemma run_completes:
  "completes limit (launch w cmd) \<Longrightarrow>
   \<exists>p. subprocess_run launch cmd limit w = (Inr p, w\<lparr>spawned := spawned w @ [(cmd, limit)]\<rparr>)"
  by (auto simp add: subprocess_run_def completes_def Let_def
      split: proc_behaviour.splits captured.splits)

lemma run_exceeds:
  "exceeds limit (launch w cmd) \<Longrightarrow>
   subprocess_run launch cmd limit w =
     (Inl (TimeoutExpired ''timed out''), w\<lparr>spawned := spawned w @ [(cmd, limit)]\<rparr>)"
  by (auto simp add: subprocess_run_def exceeds_def Let_def split: proc_behaviour.splits)

lemma run_missing:
  "missing (launch w cmd) \<Longrightarrow>
   \<exists>m. subprocess_run launch cmd limit w =
     (Inl (FileNotFoundError m), w\<lparr>spawned := spawned w @ [(cmd, limit)]\<rparr>)"
  by (auto simp add: subprocess_run_def missing_def Let_def split: proc_behaviour.splits)

lemma run_raises_unless_completes:
  "\<not> completes limit (launch w cmd) \<Longrightarrow>
   \<exists>e. subprocess_run launch cmd limit w = (Inl e, w\<lparr>spawned := spawned w @ [(cmd, limit)]\<rparr>)"
  by (auto simp add: subprocess_run_def completes_def Let_def
      split: proc_behaviour.splits captured.splits)

section \<open>Properties of run_verilog_simulation\<close>

lemma simulation_spawned:
  "spawned_since w (snd (run_verilog_simulation launch testbench_file design_files w))
     = (if completes 15 (compile_step launch testbench_file design_files w)
        then [(compile_command testbench_file (str_split design_files), 15), (run_command, 15)]
        else [(compile_command testbench_file (str_split design_files), 15)])"
proof -
  let ?cmd = "compile_command testbench_file (str_split design_files)"
  let ?w1 = "w\<lparr>spawned := spawned w @ [(?cmd, 15)]\<rparr>"
  let ?w2 = "?w1\<lparr>spawned := spawned ?w1 @ [(run_command, 15)]\<rparr>"
  show ?thesis
  proof (cases "completes 15 (launch w ?cmd)")
    case True
    then obtain p where c: "subprocess_run launch ?cmd 15 w = (Inr p, ?w1)"
      using run_completes by blast
    obtain r2 where r: "subprocess_run launch run_command 15 ?w1 = (r2, ?w2)"
      using subprocess_run_pair by blast
    from True c r show ?thesis
      by (cases r2)
         (simp_all add: run_verilog_simulation_def Let_def spawned_since_def compile_step_def)
  next
    case False
    then obtain e where "subprocess_run launch ?cmd 15 w = (Inl e, ?w1)"
      using run_raises_unless_completes by blast
    with False show ?thesis
      by (simp add: run_verilog_simulation_def Let_def spawned_since_def compile_step_def)
  qed
qed

lemma simulation_compile_raises:
  assumes "subprocess_run launch (compile_command testbench_file (str_split design_files)) 15 w
             = (Inl e, w1)"
  shows "run_verilog_simulation launch testbench_file design_files w
           = (simulation_handlers e, w1)"
  using assms by (simp add: run_verilog_simulation_def Let_def)

lemma simulation_run_raises:
  assumes "completes 15 (compile_step launch testbench_file design_files w)"
    and "subprocess_run launch run_command 15
           (w\<lparr>spawned := spawned w
                @ [(compile_command testbench_file (str_split design_files), 15)]\<rparr>)
         = (Inl e, w2)"
  shows "run_verilog_simulation launch testbench_file design_files w
           = (simulation_handlers e, w2)"
proof -
  let ?cmd = "compile_command testbench_file (str_split design_files)"
  from assms(1) have "completes 15 (launch w ?cmd)"
    by (simp add: compile_step_def)
  then obtain p where "subprocess_run launch ?cmd 15 w
      = (Inr p, w\<lparr>spawned := spawned w @ [(?cmd, 15)]\<rparr>)"
    using run_completes by blast
  with assms(2) show ?thesis
    by (simp add: run_verilog_simulation_def Let_def)
qed

lemma compile_failure_result:
  assumes "fails_with 15 details (compile_step launch testbench_file design_files w)"
  shows "fst (run_verilog_simulation launch testbench_file design_files w)
           = Inr [(''error'', ''Simulation failed''), (''details'', details)]"
proof -
  let ?cmd = "compile_command testbench_file (str_split design_files)"
  from assms have "fails_with 15 details (launch w ?cmd)"
    by (simp add: compile_step_def)
  then have "subprocess_run launch ?cmd 15 w =
     (Inl (CalledProcessError ''non-zero exit status'' details),
      w\<lparr>spawned := spawned w @ [(?cmd, 15)]\<rparr>)"
    by (rule run_fails_with)
  then show ?thesis
    by (simp add: simulation_compile_raises simulation_failed_def)
qed

lemma run_failure_result:
  assumes "completes 15 (compile_step launch testbench_file design_files w)"
    and "fails_with 15 details (run_step launch testbench_file design_files w)"
  shows "fst (run_verilog_simulation launch testbench_file design_files w)
           = Inr [(''error'', ''Simulation failed''), (''details'', details)]"
proof -
  let ?cmd = "compile_command testbench_file (str_split design_files)"
  let ?w1 = "w\<lparr>spawned := spawned w @ [(?cmd, 15)]\<rparr>"
  from assms(2) have "fails_with 15 details (launch ?w1 run_command)"
    by (simp add: run_step_def)
  then have "subprocess_run launch run_command 15 ?w1 =
     (Inl (CalledProcessError ''non-zero exit status'' details),
      ?w1\<lparr>spawned := spawned ?w1 @ [(run_command, 15)]\<rparr>)"
    by (rule run_fails_with)
  from simulation_run_raises [OF assms(1) this] show ?thesis
    by (simp add: simulation_failed_def)
qed

text \<open>
  Claim C2, as stated, fails.  The object returned for a failed compile step is the very
  object returned for a failed run step with the same standard error: the code has no
  kind that names the compile step.  And a compile step that exits with a non-zero status
  while its standard error does not decode makes the call raise instead of return.
\<close>

theorem compile_failure_has_no_kind_of_its_own:
  "fst (run_verilog_simulation
          (toolchain (Exits 1 2 (Decodes []) (Decodes ''syntax error''))
                     (Exits 1 0 (Decodes ''PASS'') (Decodes [])))
          ''tb.v'' ''and.v'' empty_world)
   = fst (run_verilog_simulation
          (toolchain (Exits 1 0 (Decodes []) (Decodes []))
                     (Exits 1 1 (Decodes []) (Decodes ''syntax error'')))
          ''tb.v'' ''and.v'' empty_world)
   \<and> fst (run_verilog_simulation
          (toolchain (Exits 1 2 (Decodes []) Garbled)
                     (Exits 1 0 (Decodes ''PASS'') (Decodes [])))
          ''tb.v'' ''and.v'' empty_world)
     = Inl (OtherException ''codec cannot decode byte'')"
  by (simp add: run_verilog_simulation_def subprocess_run_def toolchain_def Let_def
      compile_command_def run_command_def simulation_failed_def)

text \<open>
  Claim C2, amended.  When the compile step exits with a non-zero status within the
  timeout and its output decodes, the call returns the object whose \<open>error\<close> is
  \<open>Simulation failed\<close> and whose \<open>details\<close> are the standard error of the compile
  step; the only process started by the call is the compile command, so the run step
  (\<open>vvp\<close>) is never invoked, and the file system is left as it was.
\<close>

theorem compile_failure_stops_simulation:
  assumes "fails_with 15 details (compile_step launch testbench_file design_files w)"
  shows "fst (run_verilog_simulation launch testbench_file design_files w)
           = Inr [(''error'', ''Simulation failed''), (''details'', details)]
         \<and> spawned_since w (snd (run_verilog_simulation launch testbench_file design_files w))
           = [([''iverilog'', ''-o'', ''simulation_output'', testbench_file]
                 @ str_split design_files, 15)]
         \<and> run_command \<notin> fst ` set (spawned_since w
             (snd (run_verilog_simulation launch testbench_file design_files w)))
         \<and> fs (snd (run_verilog_simulation launch testbench_file design_files w)) = fs w"
proof -
  from assms have n: "\<not> completes 15 (compile_step launch testbench_file design_files w)"
    by (auto simp add: fails_with_def completes_def
        split: proc_behaviour.splits captured.splits)
  have s: "spawned_since w (snd (run_verilog_simulation launch testbench_file design_files w))
      = [(compile_command testbench_file (str_split design_files), 15)]"
    using n by (simp add: simulation_spawned)
  let ?cmd = "compile_command testbench_file (str_split design_files)"
  from assms have "fails_with 15 details (launch w ?cmd)"
    by (simp add: compile_step_def)
  then have "subprocess_run launch ?cmd 15 w =
     (Inl (CalledProcessError ''non-zero exit status'' details),
      w\<lparr>spawned := spawned w @ [(?cmd, 15)]\<rparr>)"
    by (rule run_fails_with)
  then have f: "fs (snd (run_verilog_simulation launch testbench_file design_files w)) = fs w"
    by (simp add: simulation_compile_raises)
  show ?thesis
    using compile_failure_result [OF assms] s f
    by (simp add: compile_command_def run_command_def)
qed

theorem compile_failure_stops_simulation_witness:
  "fails_with 15 ''syntax error''
     (compile_step (toolchain (Exits 1 2 (Decodes []) (Decodes ''syntax error''))
                              (Exits 1 0 (Decodes ''PASS'') (Decodes [])))
        ''tb.v'' ''and.v or.v'' empty_world)
   \<and> fst (run_verilog_simulation
        (toolchain (Exits 1 2 (Decodes []) (Decodes ''syntax error''))
                   (Exits 1 0 (Decodes ''PASS'') (Decodes [])))
        ''tb.v'' ''and.v or.v'' empty_world)
     = Inr [(''error'', ''Simulation failed''), (''details'', ''syntax error'')]
   \<and> spawned_since empty_world (snd (run_verilog_simulation
        (toolchain (Exits 1 2 (Decodes []) (Decodes ''syntax error''))
                   (Exits 1 0 (Decodes ''PASS'') (Decodes [])))
        ''tb.v'' ''and.v or.v'' empty_world))
     = [([''iverilog'', ''-o'', ''simulation_output'', ''tb.v'', ''and.v'', ''or.v''], 15)]"
proof -
  have h: "fails_with 15 ''syntax error''
     (compile_step (toolchain (Exits 1 2 (Decodes []) (Decodes ''syntax error''))
                              (Exits 1 0 (Decodes ''PASS'') (Decodes [])))
        ''tb.v'' ''and.v or.v'' empty_world)"
    by (simp add: fails_with_def compile_step_def toolchain_def compile_command_def)
  have sp: "str_split ''and.v or.v'' = [''and.v'', ''or.v'']"
    by (simp add: str_split_def isspace_def)
  from compile_failure_stops_simulation [OF h] h show ?thesis
    by (simp add: sp)
qed

text \<open>
  When the compile step and the run step both exit with status zero within the timeout and
  their output decodes, the call returns the success object whose log is exactly the
  captured standard output of the run step.
\<close>

lemma successful_simulation_returns_run_stdout:
  assumes "completes 15 (compile_step launch testbench_file design_files w)"
    and "run_step launch testbench_file design_files w = Exits t 0 (Decodes out) (Decodes err)"
    and "t \<le> 15"
  shows "fst (run_verilog_simulation launch testbench_file design_files w)
           = Inr [(''simulation_log'', out)]"
proof -
  let ?cmd = "compile_command testbench_file (str_split design_files)"
  let ?w1 = "w\<lparr>spawned := spawned w @ [(?cmd, 15)]\<rparr>"
  from assms(1) have "completes 15 (launch w ?cmd)"
    by (simp add: compile_step_def)
  then obtain p where c: "subprocess_run launch ?cmd 15 w = (Inr p, ?w1)"
    using run_completes by blast
  from assms(2) have "launch ?w1 run_command = Exits t 0 (Decodes out) (Decodes err)"
    by (simp add: run_step_def)
  with assms(3) have r: "subprocess_run launch run_command 15 ?w1
      = (Inr \<lparr>returncode = 0, stdout = out, stderr_text = err\<rparr>,
         ?w1\<lparr>spawned := spawned ?w1 @ [(run_command, 15)]\<rparr>)"
    by (simp add: subprocess_run_def Let_def)
  show ?thesis using c r
    by (simp add: run_verilog_simulation_def Let_def)
qed

text \<open>
  Claim C8 does not hold of every call in which both steps exit with status zero: when the
  run step prints bytes that do not decode, \<open>subprocess.run\<close> raises
  \<open>UnicodeDecodeError\<close>, which none of the three handlers catches, and the call
  returns no object at all.
\<close>

theorem undecodable_output_escapes_simulation:
  "fst (run_verilog_simulation
          (toolchain (Exits 2 0 (Decodes ''compiled'') (Decodes []))
                     (Exits 3 0 Garbled (Decodes [])))
          ''tb.v'' ''and.v'' empty_world)
     = Inl (OtherException ''codec cannot decode byte'')
   \<and> spawned_since empty_world (snd (run_verilog_simulation
          (toolchain (Exits 2 0 (Decodes ''compiled'') (Decodes []))
                     (Exits 3 0 Garbled (Decodes [])))
          ''tb.v'' ''and.v'' empty_world))
     = [([''iverilog'', ''-o'', ''simulation_output'', ''tb.v'', ''and.v''], 15),
        ([''vvp'', ''simulation_output''], 15)]"
  by (simp add: run_verilog_simulation_def subprocess_run_def toolchain_def Let_def
      compile_command_def run_command_def spawned_since_def empty_world_def str_split_def
      isspace_def)

text \<open>
  Claim C3, as stated, fails: a compile step and a run step that fail with the same
  standard error give the very same object, so nothing in the result tells the failing step.
\<close>

theorem compile_and_run_failures_look_alike:
  "fst (run_verilog_simulation (toolchain (Exits 1 2 (Decodes []) (Decodes ''boom'')) (Exits 1 0 (Decodes ''PASS'') (Decodes [])))
          ''tb.v'' ''and.v'' empty_world)
   = fst (run_verilog_simulation (toolchain (Exits 1 0 (Decodes []) (Decodes [])) (Exits 1 3 (Decodes []) (Decodes ''boom'')))
          ''tb.v'' ''and.v'' empty_world)
   \<and> fst (run_verilog_simulation (toolchain (Exits 1 0 (Decodes []) (Decodes [])) (Exits 1 3 (Decodes []) (Decodes ''boom'')))
          ''tb.v'' ''and.v'' empty_world)
     = Inr [(''error'', ''Simulation failed''), (''details'', ''boom'')]"
  by (simp add: run_verilog_simulation_def subprocess_run_def toolchain_def Let_def
      compile_command_def run_command_def simulation_failed_def)

text \<open>
  Claim C3, amended.  A non-zero exit of the compile step and a non-zero exit of the run
  step (after a successful compile step) are both reported by the object whose \<open>error\<close>
  is \<open>Simulation failed\<close> and whose \<open>details\<close> are the standard error of the step
  that failed; the two failures have the same kind.
\<close>

theorem step_failures_share_one_kind:
  "(fails_with 15 details (compile_step launch testbench_file design_files w)
      \<longrightarrow> fst (run_verilog_simulation launch testbench_file design_files w)
            = Inr (simulation_failed details))
   \<and> (completes 15 (compile_step launch testbench_file design_files w)
        \<and> fails_with 15 details (run_step launch testbench_file design_files w)
      \<longrightarrow> fst (run_verilog_simulation launch testbench_file design_files w)
            = Inr (simulation_failed details))
   \<and> failure_kind (simulation_failed details) = Some ''Simulation failed''
   \<and> map_of (simulation_failed details) ''details'' = Some details"
proof -
  let ?cmd = "compile_command testbench_file (str_split design_files)"
  let ?w1 = "w\<lparr>spawned := spawned w @ [(?cmd, 15)]\<rparr>"
  have a: "fst (run_verilog_simulation launch testbench_file design_files w)
            = Inr (simulation_failed details)"
    if "fails_with 15 details (compile_step launch testbench_file design_files w)"
  proof -
    from that have "fails_with 15 details (launch w ?cmd)"
      by (simp add: compile_step_def)
    then have "subprocess_run launch ?cmd 15 w =
       (Inl (CalledProcessError ''non-zero exit status'' details), ?w1)"
      by (rule run_fails_with)
    then show ?thesis
      by (simp add: run_verilog_simulation_def Let_def)
  qed
  have b: "fst (run_verilog_simulation launch testbench_file design_files w)
            = Inr (simulation_failed details)"
    if "completes 15 (compile_step launch testbench_file design_files w)"
      and "fails_with 15 details (run_step launch testbench_file design_files w)"
  proof -
    from that(1) have "completes 15 (launch w ?cmd)"
      by (simp add: compile_step_def)
    then obtain p where c: "subprocess_run launch ?cmd 15 w = (Inr p, ?w1)"
      using run_completes by blast
    from that(2) have "fails_with 15 details (launch ?w1 run_command)"
      by (simp add: run_step_def)
    then have "subprocess_run launch run_command 15 ?w1 =
       (Inl (CalledProcessError ''non-zero exit status'' details),
        ?w1\<lparr>spawned := spawned ?w1 @ [(run_command, 15)]\<rparr>)"
      by (rule run_fails_with)
    with c show ?thesis
      by (simp add: run_verilog_simulation_def Let_def)
  qed
  show ?thesis using a b
    by (simp add: failure_kind_def simulation_failed_def)
qed

theorem step_failures_share_one_kind_witness:
  "fails_with 15 ''boom''
     (compile_step (toolchain (Exits 1 2 (Decodes []) (Decodes ''boom'')) (Exits 1 0 (Decodes ''PASS'') (Decodes [])))
        ''tb.v'' ''and.v'' empty_world)
   \<and> fst (run_verilog_simulation (toolchain (Exits 1 2 (Decodes []) (Decodes ''boom'')) (Exits 1 0 (Decodes ''PASS'') (Decodes [])))
        ''tb.v'' ''and.v'' empty_world) = Inr (simulation_failed ''boom'')
   \<and> completes 15
     (compile_step (toolchain (Exits 1 0 (Decodes []) (Decodes [])) (Exits 1 3 (Decodes []) (Decodes ''crash'')))
        ''tb.v'' ''and.v'' empty_world)
   \<and> fails_with 15 ''crash''
     (run_step (toolchain (Exits 1 0 (Decodes []) (Decodes [])) (Exits 1 3 (Decodes []) (Decodes ''crash'')))
        ''tb.v'' ''and.v'' empty_world)
   \<and> fst (run_verilog_simulation (toolchain (Exits 1 0 (Decodes []) (Decodes [])) (Exits 1 3 (Decodes []) (Decodes ''crash'')))
        ''tb.v'' ''and.v'' empty_world) = Inr (simulation_failed ''crash'')"
proof -
  have h1: "fails_with 15 ''boom''
     (compile_step (toolchain (Exits 1 2 (Decodes []) (Decodes ''boom'')) (Exits 1 0 (Decodes ''PASS'') (Decodes [])))
        ''tb.v'' ''and.v'' empty_world)"
    by (simp add: fails_with_def compile_step_def toolchain_def compile_command_def)
  have h2: "completes 15
     (compile_step (toolchain (Exits 1 0 (Decodes []) (Decodes [])) (Exits 1 3 (Decodes []) (Decodes ''crash'')))
        ''tb.v'' ''and.v'' empty_world)"
    by (simp add: completes_def compile_step_def toolchain_def compile_command_def)
  have h3: "fails_with 15 ''crash''
     (run_step (toolchain (Exits 1 0 (Decodes []) (Decodes [])) (Exits 1 3 (Decodes []) (Decodes ''crash'')))
        ''tb.v'' ''and.v'' empty_world)"
    by (simp add: fails_with_def run_step_def toolchain_def run_command_def)
  from step_failures_share_one_kind
         [of "''boom''" "toolchain (Exits 1 2 (Decodes []) (Decodes ''boom'')) (Exits 1 0 (Decodes ''PASS'') (Decodes []))"
             "''tb.v''" "''and.v''" empty_world]
       step_failures_share_one_kind
         [of "''crash''" "toolchain (Exits 1 0 (Decodes []) (Decodes [])) (Exits 1 3 (Decodes []) (Decodes ''crash''))"
             "''tb.v''" "''and.v''" empty_world]
       h1 h2 h3
  show ?thesis by blast
qed

text \<open>
  Claim C4.  The compile step is started with the timeout of 15 seconds, and so is the run
  step, which is started exactly when the compile step completes; no other process is
  started.  A compile step or a run step that is still running after 15 seconds makes the
  call return the object whose \<open>error\<close> is the timeout message.
\<close>

theorem simulation_steps_time_out:
  "spawned_since w (snd (run_verilog_simulation launch testbench_file design_files w))
     = (if completes 15 (compile_step launch testbench_file design_files w)
        then [([''iverilog'', ''-o'', ''simulation_output'', testbench_file]
                 @ str_split design_files, 15),
              ([''vvp'', ''simulation_output''], 15)]
        else [([''iverilog'', ''-o'', ''simulation_output'', testbench_file]
                 @ str_split design_files, 15)])
   \<and> (exceeds 15 (compile_step launch testbench_file design_files w)
      \<longrightarrow> fst (run_verilog_simulation launch testbench_file design_files w)
            = Inr [(''error'',
                    ''Simulation timed out. The testbench might have an infinite loop.'')])
   \<and> (completes 15 (compile_step launch testbench_file design_files w)
        \<and> exceeds 15 (run_step launch testbench_file design_files w)
      \<longrightarrow> fst (run_verilog_simulation launch testbench_file design_files w)
            = Inr [(''error'',
                    ''Simulation timed out. The testbench might have an infinite loop.'')])"
proof -
  let ?cmd = "compile_command testbench_file (str_split design_files)"
  let ?w1 = "w\<lparr>spawned := spawned w @ [(?cmd, 15)]\<rparr>"
  have a: "fst (run_verilog_simulation launch testbench_file design_files w)
            = Inr simulation_timed_out"
    if "exceeds 15 (compile_step launch testbench_file design_files w)"
  proof -
    from that have "exceeds 15 (launch w ?cmd)"
      by (simp add: compile_step_def)
    then have "subprocess_run launch ?cmd 15 w = (Inl (TimeoutExpired ''timed out''), ?w1)"
      by (rule run_exceeds)
    then show ?thesis
      by (simp add: simulation_compile_raises)
  qed
  have b: "fst (run_verilog_simulation launch testbench_file design_files w)
            = Inr simulation_timed_out"
    if "completes 15 (compile_step launch testbench_file design_files w)"
      and "exceeds 15 (run_step launch testbench_file design_files w)"
  proof -
    from that(2) have "exceeds 15 (launch ?w1 run_command)"
      by (simp add: run_step_def)
    then have "subprocess_run launch run_command 15 ?w1 =
       (Inl (TimeoutExpired ''timed out''),
        ?w1\<lparr>spawned := spawned ?w1 @ [(run_command, 15)]\<rparr>)"
      by (rule run_exceeds)
    from simulation_run_raises [OF that(1) this] show ?thesis
      by simp
  qed
  have c: "spawned_since w (snd (run_verilog_simulation launch testbench_file design_files w))
     = (if completes 15 (compile_step launch testbench_file design_files w)
        then [([''iverilog'', ''-o'', ''simulation_output'', testbench_file]
                 @ str_split design_files, 15),
              ([''vvp'', ''simulation_output''], 15)]
        else [([''iverilog'', ''-o'', ''simulation_output'', testbench_file]
                 @ str_split design_files, 15)])"
    by (simp add: simulation_spawned compile_command_def run_command_def)
  show ?thesis using a b c
    by (simp add: simulation_timed_out_def)
qed

theorem simulation_steps_time_out_witness:
  "exceeds 15 (compile_step
       (toolchain (Exits (31 / 2) 0 (Decodes []) (Decodes []))
                  (Exits 1 0 (Decodes ''PASS'') (Decodes [])))
       ''tb.v'' ''and.v'' empty_world)
   \<and> run_verilog_simulation
       (toolchain (Exits (31 / 2) 0 (Decodes []) (Decodes []))
                  (Exits 1 0 (Decodes ''PASS'') (Decodes [])))
       ''tb.v'' ''and.v'' empty_world
     = (Inr [(''error'', ''Simulation timed out. The testbench might have an infinite loop.'')],
        \<lparr>fs = Map.empty,
         spawned = [([''iverilog'', ''-o'', ''simulation_output'', ''tb.v'', ''and.v''], 15)]\<rparr>)
   \<and> completes 15 (compile_step (toolchain (Exits 2 0 (Decodes []) (Decodes [])) Hangs)
       ''tb.v'' ''and.v'' empty_world)
   \<and> exceeds 15 (run_step (toolchain (Exits 2 0 (Decodes []) (Decodes [])) Hangs)
       ''tb.v'' ''and.v'' empty_world)
   \<and> run_verilog_simulation (toolchain (Exits 2 0 (Decodes []) (Decodes [])) Hangs)
       ''tb.v'' ''and.v'' empty_world
     = (Inr [(''error'', ''Simulation timed out. The testbench might have an infinite loop.'')],
        \<lparr>fs = Map.empty,
         spawned = [([''iverilog'', ''-o'', ''simulation_output'', ''tb.v'', ''and.v''], 15),
                    ([''vvp'', ''simulation_output''], 15)]\<rparr>)"
proof -
  let ?slow = "toolchain (Exits (31 / 2) 0 (Decodes []) (Decodes []))
                         (Exits 1 0 (Decodes ''PASS'') (Decodes []))"
  let ?loop = "toolchain (Exits 2 0 (Decodes []) (Decodes [])) Hangs"
  have h1: "exceeds 15 (compile_step ?slow ''tb.v'' ''and.v'' empty_world)"
    by (simp add: exceeds_def compile_step_def toolchain_def compile_command_def)
  have n1: "\<not> completes 15 (compile_step ?slow ''tb.v'' ''and.v'' empty_world)"
    by (simp add: completes_def compile_step_def toolchain_def compile_command_def)
  have h2: "completes 15 (compile_step ?loop ''tb.v'' ''and.v'' empty_world)"
    by (simp add: completes_def compile_step_def toolchain_def compile_command_def)
  have h3: "exceeds 15 (run_step ?loop ''tb.v'' ''and.v'' empty_world)"
    by (simp add: exceeds_def run_step_def toolchain_def run_command_def)
  have sp: "str_split ''and.v'' = [''and.v'']"
    by (simp add: str_split_def isspace_def)
  have w1: "snd (run_verilog_simulation ?slow ''tb.v'' ''and.v'' empty_world)
      = \<lparr>fs = Map.empty,
         spawned = [([''iverilog'', ''-o'', ''simulation_output'', ''tb.v'', ''and.v''], 15)]\<rparr>"
    using simulation_steps_time_out [of empty_world ?slow "''tb.v''" "''and.v''"] n1
    by (simp add: sp spawned_since_def empty_world_def run_verilog_simulation_def
        subprocess_run_def Let_def toolchain_def compile_command_def)
  have w2: "snd (run_verilog_simulation ?loop ''tb.v'' ''and.v'' empty_world)
      = \<lparr>fs = Map.empty,
         spawned = [([''iverilog'', ''-o'', ''simulation_output'', ''tb.v'', ''and.v''], 15),
                    ([''vvp'', ''simulation_output''], 15)]\<rparr>"
    by (simp add: sp empty_world_def run_verilog_simulation_def
        subprocess_run_def Let_def toolchain_def compile_command_def run_command_def)
  from simulation_steps_time_out [of empty_world ?slow "''tb.v''" "''and.v''"]
       simulation_steps_time_out [of empty_world ?loop "''tb.v''" "''and.v''"]
       h1 h2 h3 w1 w2
  show ?thesis
    by (simp add: prod_eq_iff)
qed

text \<open>
  Claim C5.  When the executable of the compile step is missing, or that of the run step
  after a successful compile step, the call returns the object whose \<open>error\<close> names
  the missing toolchain.  A call whose compile step fails returns the
  \<open>Simulation failed\<close> object instead: the two results differ, and so do their kinds.
\<close>

theorem missing_toolchain_is_reported:
  "(missing (compile_step launch testbench_file design_files w)
      \<longrightarrow> fst (run_verilog_simulation launch testbench_file design_files w)
            = Inr [(''error'', ''Icarus Verilog not found. Please ensure it is installed and in your system's PATH.'')])
   \<and> (completes 15 (compile_step launch testbench_file design_files w)
        \<and> missing (run_step launch testbench_file design_files w)
      \<longrightarrow> fst (run_verilog_simulation launch testbench_file design_files w)
            = Inr [(''error'', ''Icarus Verilog not found. Please ensure it is installed and in your system's PATH.'')])
   \<and> (missing (compile_step launch testbench_file design_files w)
        \<and> fails_with 15 details (compile_step launch' testbench_file' design_files' w')
      \<longrightarrow> fst (run_verilog_simulation launch' testbench_file' design_files' w')
            = Inr [(''error'', ''Simulation failed''), (''details'', details)]
          \<and> fst (run_verilog_simulation launch testbench_file design_files w)
            \<noteq> fst (run_verilog_simulation launch' testbench_file' design_files' w')
          \<and> (\<exists>a b. fst (run_verilog_simulation launch testbench_file design_files w) = Inr a
                 \<and> fst (run_verilog_simulation launch' testbench_file' design_files' w') = Inr b
                 \<and> failure_kind a \<noteq> failure_kind b))"
proof -
  let ?cmd = "compile_command testbench_file (str_split design_files)"
  let ?w1 = "w\<lparr>spawned := spawned w @ [(?cmd, 15)]\<rparr>"
  have a: "fst (run_verilog_simulation launch testbench_file design_files w)
            = Inr toolchain_missing"
    if "missing (compile_step launch testbench_file design_files w)"
  proof -
    from that have "missing (launch w ?cmd)"
      by (simp add: compile_step_def)
    then obtain m where "subprocess_run launch ?cmd 15 w = (Inl (FileNotFoundError m), ?w1)"
      using run_missing by blast
    then show ?thesis
      by (simp add: simulation_compile_raises)
  qed
  have b: "fst (run_verilog_simulation launch testbench_file design_files w)
            = Inr toolchain_missing"
    if "completes 15 (compile_step launch testbench_file design_files w)"
      and "missing (run_step launch testbench_file design_files w)"
  proof -
    from that(2) have "missing (launch ?w1 run_command)"
      by (simp add: run_step_def)
    then obtain m where "subprocess_run launch run_command 15 ?w1 =
       (Inl (FileNotFoundError m), ?w1\<lparr>spawned := spawned ?w1 @ [(run_command, 15)]\<rparr>)"
      using run_missing by blast
    from simulation_run_raises [OF that(1) this] show ?thesis
      by simp
  qed
  have c: "fst (run_verilog_simulation launch' testbench_file' design_files' w')
            = Inr [(''error'', ''Simulation failed''), (''details'', details)]"
    if "fails_with 15 details (compile_step launch' testbench_file' design_files' w')"
    using that by (rule compile_failure_result)
  show ?thesis using a b c
    by (auto simp add: toolchain_missing_def failure_kind_def)
qed

theorem missing_toolchain_is_reported_witness:
  "missing (compile_step (toolchain (NotFound ''iverilog'') (NotFound ''vvp''))
       ''tb.v'' ''and.v'' empty_world)
   \<and> fst (run_verilog_simulation (toolchain (NotFound ''iverilog'') (NotFound ''vvp''))
       ''tb.v'' ''and.v'' empty_world)
     = Inr [(''error'', ''Icarus Verilog not found. Please ensure it is installed and in your system's PATH.'')]
   \<and> completes 15 (compile_step
       (toolchain (Exits 2 0 (Decodes []) (Decodes [])) (NotFound ''vvp''))
       ''tb.v'' ''and.v'' empty_world)
   \<and> missing (run_step (toolchain (Exits 2 0 (Decodes []) (Decodes [])) (NotFound ''vvp''))
       ''tb.v'' ''and.v'' empty_world)
   \<and> fst (run_verilog_simulation
       (toolchain (Exits 2 0 (Decodes []) (Decodes [])) (NotFound ''vvp''))
       ''tb.v'' ''and.v'' empty_world)
     = Inr [(''error'', ''Icarus Verilog not found. Please ensure it is installed and in your system's PATH.'')]
   \<and> fails_with 15 ''syntax error'' (compile_step
       (toolchain (Exits 1 2 (Decodes []) (Decodes ''syntax error'')) (NotFound ''vvp''))
       ''tb.v'' ''and.v'' empty_world)
   \<and> fst (run_verilog_simulation
       (toolchain (Exits 1 2 (Decodes []) (Decodes ''syntax error'')) (NotFound ''vvp''))
       ''tb.v'' ''and.v'' empty_world)
     = Inr [(''error'', ''Simulation failed''), (''details'', ''syntax error'')]
   \<and> fst (run_verilog_simulation (toolchain (NotFound ''iverilog'') (NotFound ''vvp''))
       ''tb.v'' ''and.v'' empty_world)
     \<noteq> fst (run_verilog_simulation
       (toolchain (Exits 1 2 (Decodes []) (Decodes ''syntax error'')) (NotFound ''vvp''))
       ''tb.v'' ''and.v'' empty_world)"
proof -
  let ?none = "toolchain (NotFound ''iverilog'') (NotFound ''vvp'')"
  let ?half = "toolchain (Exits 2 0 (Decodes []) (Decodes [])) (NotFound ''vvp'')"
  let ?bad = "toolchain (Exits 1 2 (Decodes []) (Decodes ''syntax error'')) (NotFound ''vvp'')"
  have h1: "missing (compile_step ?none ''tb.v'' ''and.v'' empty_world)"
    by (simp add: missing_def compile_step_def toolchain_def compile_command_def)
  have h2: "completes 15 (compile_step ?half ''tb.v'' ''and.v'' empty_world)"
    by (simp add: completes_def compile_step_def toolchain_def compile_command_def)
  have h3: "missing (run_step ?half ''tb.v'' ''and.v'' empty_world)"
    by (simp add: missing_def run_step_def toolchain_def run_command_def)
  have h4: "fails_with 15 ''syntax error'' (compile_step ?bad ''tb.v'' ''and.v'' empty_world)"
    by (simp add: fails_with_def compile_step_def toolchain_def compile_command_def)
  from missing_toolchain_is_reported
         [of ?none "''tb.v''" "''and.v''" empty_world "''syntax error''" ?bad
             "''tb.v''" "''and.v''" empty_world]
       missing_toolchain_is_reported
         [of ?half "''tb.v''" "''and.v''" empty_world "''syntax error''" ?bad
             "''tb.v''" "''and.v''" empty_world]
       h1 h2 h3 h4
  show ?thesis by blast
qed

section \<open>Exceptions leaving the tools\<close>

text \<open>
  \<open>save_code_to_file\<close> and \<open>generate_circuit_diagram\<close> catch every exception and
  always return an object.
\<close>

lemma save_code_to_file_returns:
  "\<exists>r. fst (save_code_to_file env filename code w) = Inr r"
  by (simp add: save_code_to_file_def split: prod.split sum.split)

lemma generate_circuit_diagram_returns:
  "\<exists>r. fst (generate_circuit_diagram env dot_description w) = Inr r"
  by (simp add: generate_circuit_diagram_def split: prod.split sum.split)

text \<open>
  Claim C1 does not hold of \<open>run_verilog_simulation\<close>, which handles three exception
  classes only: with a NUL character in the testbench name, or with a compiler that cannot
  be executed, the exception raised by \<open>subprocess.run\<close> leaves the tool.
\<close>

theorem run_verilog_simulation_lets_exceptions_escape:
  "fst (run_verilog_simulation
          (posix_launcher (toolchain (Exits 2 0 (Decodes []) (Decodes [])) (Exits 3 0 (Decodes ''PASS'') (Decodes []))))
          [CHR ''t'', CHR ''b'', CHR 0x00] ''and.v'' empty_world)
     = Inl (OtherException ''embedded null byte'')
   \<and> fst (run_verilog_simulation
          (toolchain (SpawnFails ''Permission denied'') (Exits 3 0 (Decodes ''PASS'') (Decodes [])))
          ''tb.v'' ''and.v'' empty_world)
     = Inl (OtherException ''Permission denied'')"
  by (simp add: run_verilog_simulation_def subprocess_run_def posix_launcher_def toolchain_def
      Let_def compile_command_def run_command_def)

section \<open>Properties of save_code_to_file\<close>





lemma save_code_to_file_success_iff:
  "fst (save_code_to_file env path code w) = Inr (file_saved path)
   \<longleftrightarrow> open_fault env path = None \<and> fs w path \<noteq> Some Directory
       \<and> write_fault env path code = None"
  by (auto simp add: save_code_to_file_def open_w_def write_close_def file_saved_def
      split: option.splits node.splits prod.splits)




section \<open>Properties of generate_circuit_diagram\<close>

text \<open>
  Claim C7, as stated for every description, fails: a description that the layout engine
  rejects is not rendered, the call returns the failure object and leaves no image.
\<close>

theorem rejected_description_is_not_rendered:
  "fst (generate_circuit_diagram plain_io ''not a graph'' empty_world)
     = Inr (diagram_failed (CalledProcessError ''dot returned non-zero exit status 1''
                                                ''syntax error''))
   \<and> fst (generate_circuit_diagram plain_io ''not a graph'' empty_world) \<noteq> Inr diagram_rendered
   \<and> read_file (snd (generate_circuit_diagram plain_io ''not a graph'' empty_world))
        ''static/circuit.png'' = Inl (FileNotFoundError ''No such file or directory'')"
  by (simp add: generate_circuit_diagram_def os_path_exists_def os_makedirs_def
      source_render_def plain_io_def empty_world_def diagram_failed_def diagram_rendered_def
      read_file_def Let_def)

lemma generate_makedirs_fault:
  "fs w ''static'' = None \<Longrightarrow> makedirs_fault env ''static'' = Some e \<Longrightarrow>
   generate_circuit_diagram env d w = (Inr (diagram_failed e), w)"
  by (simp add: generate_circuit_diagram_def os_path_exists_def os_makedirs_def)

lemma generate_static_is_file:
  "fs w ''static'' = Some (File c) \<Longrightarrow>
   generate_circuit_diagram env d w
     = (Inr (diagram_failed (OtherException ''Not a directory'')), w)"
  by (simp add: generate_circuit_diagram_def os_path_exists_def source_render_def)

lemma generate_engine_fails:
  "fs w ''static'' = Some Directory
     \<or> fs w ''static'' = None \<and> makedirs_fault env ''static'' = None \<Longrightarrow>
   engine env ''png'' d = Inl e \<Longrightarrow>
   generate_circuit_diagram env d w = (Inr (diagram_failed e), staged env d w)"
  by (auto simp add: generate_circuit_diagram_def os_path_exists_def os_makedirs_def
      source_render_def Let_def staged_def)

lemma generate_engine_succeeds:
  "fs w ''static'' = Some Directory
     \<or> fs w ''static'' = None \<and> makedirs_fault env ''static'' = None \<Longrightarrow>
   engine env ''png'' d = Inr png \<Longrightarrow>
   generate_circuit_diagram env d w
     = (Inr diagram_rendered,
        (staged env d w)\<lparr>fs := (fs (staged env d w))(''static/circuit.png'' \<mapsto> File png)\<rparr>)"
  by (auto simp add: generate_circuit_diagram_def os_path_exists_def os_makedirs_def
      source_render_def Let_def staged_def)


lemma generate_cases:
  obtains (fault) e where "generate_circuit_diagram env d w = (Inr (diagram_failed e), w)"
      and "fs w ''static'' = None" and "makedirs_fault env ''static'' = Some e"
    | (blocked) c where "generate_circuit_diagram env d w
          = (Inr (diagram_failed (OtherException ''Not a directory'')), w)"
      and "fs w ''static'' = Some (File c)"
    | (rejected) e where "generate_circuit_diagram env d w
          = (Inr (diagram_failed e), staged env d w)"
      and "engine env ''png'' d = Inl e"
    | (rendered) png where "generate_circuit_diagram env d w
          = (Inr diagram_rendered,
             (staged env d w)\<lparr>fs := (fs (staged env d w))(''static/circuit.png'' \<mapsto> File png)\<rparr>)"
      and "engine env ''png'' d = Inr png"
proof (cases "fs w ''static''")
  case None
  show ?thesis
  proof (cases "makedirs_fault env ''static''")
    case (Some e)
    with None fault generate_makedirs_fault show ?thesis by blast
  next
    case mk: None
    show ?thesis
    proof (cases "engine env ''png'' d")
      case (Inl e)
      with None mk rejected generate_engine_fails show ?thesis by blast
    next
      case (Inr png)
      with None mk rendered generate_engine_succeeds show ?thesis by blast
    qed
  qed
next
  case (Some n)
  show ?thesis
  proof (cases n)
    case (File c)
    with Some blocked generate_static_is_file show ?thesis by blast
  next
    case Directory
    show ?thesis
    proof (cases "engine env ''png'' d")
      case (Inl e)
      with Some Directory rejected generate_engine_fails show ?thesis by blast
    next
      case (Inr png)
      with Some Directory rendered generate_engine_succeeds show ?thesis by blast
    qed
  qed
qed

lemma static_after_staging: "fs (staged env d w) ''static'' = Some Directory"
  by (simp add: staged_def)

lemma static_after_rendering:
  "fs ((staged env d w)\<lparr>fs := (fs (staged env d w))(''static/circuit.png'' \<mapsto> File png)\<rparr>)
     ''static'' = Some Directory"
  by (simp add: staged_def)

lemma generate_twice_result:
  "fst (generate_circuit_diagram env d (snd (generate_circuit_diagram env d w)))
     = fst (generate_circuit_diagram env d w)"
proof (cases rule: generate_cases [of env d w])
  case (fault e)
  then show ?thesis by simp
next
  case (blocked c)
  then show ?thesis by simp
next
  case (rejected e)
  from generate_engine_fails [OF disjI1 [OF static_after_staging] rejected(2)] rejected(1)
  show ?thesis by simp
next
  case (rendered png)
  from generate_engine_succeeds [OF disjI1 [OF static_after_rendering] rendered(2)] rendered(1)
  show ?thesis by simp
qed

text \<open>
  Claim C7, amended.  A second call with the same description returns what the first call
  returned.  When the first call succeeds, so does the second: after each of them the image
  produced by the engine is the file \<open>static/circuit.png\<close>, and the path returned is
  \<open>/static/circuit.png\<close>; the existing directory and the existing image do not make the
  second call fail.
\<close>

theorem rendering_twice:
  "fst (generate_circuit_diagram env d (snd (generate_circuit_diagram env d w)))
     = fst (generate_circuit_diagram env d w)
   \<and> (fst (generate_circuit_diagram env d w) = Inr diagram_rendered \<longrightarrow>
        (\<exists>png. engine env ''png'' d = Inr png
           \<and> read_file (snd (generate_circuit_diagram env d w)) ''static/circuit.png'' = Inr png
           \<and> read_file (snd (generate_circuit_diagram env d
                (snd (generate_circuit_diagram env d w)))) ''static/circuit.png'' = Inr png)
        \<and> map_of diagram_rendered ''image_path'' = Some ''/static/circuit.png'')"
proof (cases rule: generate_cases [of env d w])
  case (fault e)
  then show ?thesis by (simp add: diagram_failed_def diagram_rendered_def)
next
  case (blocked c)
  then show ?thesis by (simp add: diagram_failed_def diagram_rendered_def)
next
  case (rejected e)
  from generate_engine_fails [OF disjI1 [OF static_after_staging] rejected(2)] rejected(1)
  show ?thesis by (simp add: diagram_failed_def diagram_rendered_def)
next
  case (rendered png)
  from generate_engine_succeeds [OF disjI1 [OF static_after_rendering] rendered(2)] rendered
  show ?thesis by (simp add: diagram_rendered_def read_file_def)
qed

theorem rendering_twice_witness:
  "fst (generate_circuit_diagram plain_io ''digraph G { a -> b }'' empty_world)
     = Inr diagram_rendered
   \<and> fst (generate_circuit_diagram plain_io ''digraph G { a -> b }''
       (snd (generate_circuit_diagram plain_io ''digraph G { a -> b }'' empty_world)))
     = Inr diagram_rendered
   \<and> read_file (snd (generate_circuit_diagram plain_io ''digraph G { a -> b }''
       (snd (generate_circuit_diagram plain_io ''digraph G { a -> b }'' empty_world))))
       ''static/circuit.png''
     = read_file (snd (generate_circuit_diagram plain_io ''digraph G { a -> b }'' empty_world))
       ''static/circuit.png''"
proof -
  have h: "fst (generate_circuit_diagram plain_io ''digraph G { a -> b }'' empty_world)
     = Inr diagram_rendered"
    by (simp add: generate_circuit_diagram_def os_path_exists_def os_makedirs_def
        source_render_def plain_io_def empty_world_def Let_def)
  from rendering_twice [of plain_io "''digraph G { a -> b }''" empty_world] h
  show ?thesis by auto
qed

section \<open>Properties of handle_chat\<close>

text \<open>
  Claim C10.  A request with neither a message nor an image is answered with status 400 and
  the message \<open>No message provided\<close>, and the chat object is left as it was: the gateway
  is not queried and the history does not change.
\<close>

theorem empty_request_is_rejected:
  assumes "form_message req = None" and "files_image req = None"
  shows "handle_chat image_open gw req chat = (([(''error'', ''No message provided'')], 400), chat)"
  using assms
  by (simp add: handle_chat_def build_content_def truthy_str_def truthy_file_def no_message_def)

theorem empty_request_is_rejected_witness:
  "form_message \<lparr>form_message = None, files_image = None\<rparr> = None
   \<and> files_image \<lparr>form_message = None, files_image = None\<rparr> = None
   \<and> handle_chat Inr answering_gateway \<lparr>form_message = None, files_image = None\<rparr> empty_chat
     = (([(''error'', ''No message provided'')], 400), empty_chat)
   \<and> queries (snd (handle_chat Inr answering_gateway
                      \<lparr>form_message = None, files_image = None\<rparr> empty_chat)) = []"
proof -
  have h1: "form_message \<lparr>form_message = None, files_image = None\<rparr> = None" by simp
  have h2: "files_image \<lparr>form_message = None, files_image = None\<rparr> = None" by simp
  from empty_request_is_rejected [OF h1 h2, of Inr answering_gateway empty_chat] h1 h2
  show ?thesis by (simp add: empty_chat_def)
qed

text \<open>
  Claim C9, as stated for every request, fails: the request with neither a message nor an
  image receives a validation message, which is neither a reply of the model nor the
  internal-error message.
\<close>

theorem validation_message_is_a_third_response:
  "fst (handle_chat Inr answering_gateway \<lparr>form_message = None, files_image = None\<rparr> empty_chat)
     = ([(''error'', ''No message provided'')], 400)
   \<and> fst (handle_chat Inr answering_gateway
            \<lparr>form_message = None, files_image = None\<rparr> empty_chat) \<noteq> internal_error
   \<and> map_of (fst (fst (handle_chat Inr answering_gateway
            \<lparr>form_message = None, files_image = None\<rparr> empty_chat))) ''reply'' = None"
  by (simp add: handle_chat_def build_content_def truthy_str_def truthy_file_def no_message_def
      internal_error_def)

text \<open>
  Claim C9, amended.  A request that passes validation receives either the text of the
  model's reply or the fixed message \<open>An internal error occurred.\<close>; whenever the
  gateway call raises, the caller receives that fixed message with status 500, whatever
  the exception.  A request that fails validation receives one of the two fixed 400
  messages and the gateway is not called.
\<close>

theorem chat_responses:
  "(build_content image_open req = Inr content \<longrightarrow>
      (fst (handle_chat image_open gw req chat) = internal_error
       \<or> (\<exists>t. fst (gw (history chat) content) = Inr (Response (Inr t))
              \<and> fst (handle_chat image_open gw req chat) = reply t)))
   \<and> (build_content image_open req = Inr content \<and> fst (gw (history chat) content) = Inl e
      \<longrightarrow> fst (handle_chat image_open gw req chat)
            = ([(''error'', ''An internal error occurred.'')], 500))
   \<and> (build_content image_open req = Inl early \<longrightarrow>
        handle_chat image_open gw req chat = (early, chat)
        \<and> (early = no_message \<or> early = invalid_image))"
proof -
  have a: "fst (handle_chat image_open gw req chat) = internal_error
       \<or> (\<exists>t. fst (gw (history chat) content) = Inr (Response (Inr t))
              \<and> fst (handle_chat image_open gw req chat) = reply t)"
    if "build_content image_open req = Inr content"
  proof -
    obtain r h where g: "gw (history chat) content = (r, h)"
      by (cases "gw (history chat) content")
    show ?thesis
    proof (cases r)
      case (Inl e)
      with g that show ?thesis
        by (simp add: handle_chat_def send_message_def)
    next
      case (Inr response)
      show ?thesis
      proof (cases response)
        case (Response tx)
        with Inr g that show ?thesis
          by (cases tx) (simp_all add: handle_chat_def send_message_def)
      qed
    qed
  qed
  have b: "fst (handle_chat image_open gw req chat)
            = ([(''error'', ''An internal error occurred.'')], 500)"
    if "build_content image_open req = Inr content" "fst (gw (history chat) content) = Inl e"
  proof -
    from that(2) obtain h where "gw (history chat) content = (Inl e, h)"
      by (cases "gw (history chat) content") simp
    with that(1) show ?thesis
      by (simp add: handle_chat_def send_message_def internal_error_def)
  qed
  have c: "handle_chat image_open gw req chat = (early, chat)
        \<and> (early = no_message \<or> early = invalid_image)"
    if "build_content image_open req = Inl early"
  proof -
    from that have "early = no_message \<or> early = invalid_image"
      by (auto simp add: build_content_def Let_def split: if_splits option.splits sum.splits)
    with that show ?thesis by (simp add: handle_chat_def)
  qed
  show ?thesis using a b c by blast
qed

theorem chat_responses_witness:
  "build_content Inr \<lparr>form_message = Some ''design an adder'', files_image = None\<rparr>
     = Inr [Text ''design an adder'']
   \<and> fst (unreachable_gateway (history empty_chat) [Text ''design an adder''])
     = Inl (OtherException ''503 service unavailable'')
   \<and> fst (handle_chat Inr unreachable_gateway
        \<lparr>form_message = Some ''design an adder'', files_image = None\<rparr> empty_chat)
     = ([(''error'', ''An internal error occurred.'')], 500)
   \<and> build_content Inr \<lparr>form_message = None, files_image = None\<rparr> = Inl no_message
   \<and> handle_chat Inr unreachable_gateway \<lparr>form_message = None, files_image = None\<rparr> empty_chat
     = (no_message, empty_chat)"
proof -
  have h1: "build_content Inr \<lparr>form_message = Some ''design an adder'', files_image = None\<rparr>
     = Inr [Text ''design an adder'']"
    by (simp add: build_content_def truthy_str_def truthy_file_def)
  have h2: "fst (unreachable_gateway (history empty_chat) [Text ''design an adder''])
     = Inl (OtherException ''503 service unavailable'')"
    by (simp add: unreachable_gateway_def)
  have h3: "build_content Inr \<lparr>form_message = None, files_image = None\<rparr> = Inl no_message"
    by (simp add: build_content_def truthy_str_def truthy_file_def)
  from chat_responses [of Inr "\<lparr>form_message = Some ''design an adder'', files_image = None\<rparr>"
         "[Text ''design an adder'']" unreachable_gateway empty_chat
         "OtherException ''503 service unavailable''"]
       chat_responses [of Inr "\<lparr>form_message = None, files_image = None\<rparr>"
         "[]" unreachable_gateway empty_chat "OtherException []" no_message]
       h1 h2 h3
  show ?thesis by blast
qed

end